theory Spec2Isabelle
  imports Main "HOL-Library.Word"
begin

section \<open>The Ed448 key interface\<close>

text \<open>
  A shallow embedding of \<^verbatim>\<open>cryptography/hazmat/primitives/asymmetric/ed448.py\<close>.
  The module holds two abstract classes. Each has class methods that ask the backend
  singleton whether Ed448 is available and then hand construction over to it, abstract
  methods that a concrete key class supplies, and one concrete convenience method.

  Python \<^verbatim>\<open>bytes\<close> are lists of 8-bit words. A call that may raise returns a
  sum, the exception on the left. Every call on the backend or on a key takes the
  state \<open>'s\<close> of the world outside this module (the backend, its random source)
  and returns the state afterwards, so that a call that was made can be told from one
  that was not.
\<close>

type_synonym bytes = "8 word list"

subsection \<open>Exceptions\<close>

text \<open>
  \<^verbatim>\<open>_Reasons\<close> is imported from \<^verbatim>\<open>cryptography.exceptions\<close>; this module
  names one member of it. An exception seen by a caller of this module is either the
  \<^verbatim>\<open>UnsupportedAlgorithm(message, reason)\<close> the module raises itself, or whatever
  the backend or a key's method raised (type \<open>'e\<close>), which passes through unchanged.
\<close>

datatype Reasons = UNSUPPORTED_PUBLIC_KEY_ALGORITHM

datatype 'e exn = UnsupportedAlgorithm string Reasons | Other 'e

subsection \<open>The backend\<close>

text \<open>
  \<^verbatim>\<open>from cryptography.hazmat.backends.openssl.backend import backend\<close> binds the
  backend object; the module calls four of its methods. The object is a parameter of
  the model: a record of the four methods, over key types \<open>'pub\<close> and \<open>'priv\<close>
  of the backend's choosing.
\<close>

record ('s, 'e, 'pub, 'priv) backend =
  ed448_supported :: "'s \<Rightarrow> bool \<times> 's"
  ed448_generate_key :: "'s \<Rightarrow> ('e exn + 'priv) \<times> 's"
  ed448_load_public_bytes :: "bytes \<Rightarrow> 's \<Rightarrow> ('e exn + 'pub) \<times> 's"
  ed448_load_private_bytes :: "bytes \<Rightarrow> 's \<Rightarrow> ('e exn + 'priv) \<times> 's"

subsection \<open>The class methods\<close>

text \<open>\<^verbatim>\<open>Ed448PublicKey.from_public_bytes(cls, data)\<close>\<close>

definition from_public_bytes ::
  "('s, 'e, 'pub, 'priv) backend \<Rightarrow> bytes \<Rightarrow> 's \<Rightarrow> ('e exn + 'pub) \<times> 's" where
  "from_public_bytes backend data s =
     (case ed448_supported backend s of
        (supported, s1) \<Rightarrow>
          if \<not> supported then
            (Inl (UnsupportedAlgorithm
                    ''ed448 is not supported by this version of OpenSSL.''
                    UNSUPPORTED_PUBLIC_KEY_ALGORITHM), s1)
          else ed448_load_public_bytes backend data s1)"

text \<open>\<^verbatim>\<open>Ed448PrivateKey.generate(cls)\<close>\<close>

definition generate ::
  "('s, 'e, 'pub, 'priv) backend \<Rightarrow> 's \<Rightarrow> ('e exn + 'priv) \<times> 's" where
  "generate backend s =
     (case ed448_supported backend s of
        (supported, s1) \<Rightarrow>
          if \<not> supported then
            (Inl (UnsupportedAlgorithm
                    ''ed448 is not supported by this version of OpenSSL.''
                    UNSUPPORTED_PUBLIC_KEY_ALGORITHM), s1)
          else ed448_generate_key backend s1)"

text \<open>\<^verbatim>\<open>Ed448PrivateKey.from_private_bytes(cls, data)\<close>\<close>

definition from_private_bytes ::
  "('s, 'e, 'pub, 'priv) backend \<Rightarrow> bytes \<Rightarrow> 's \<Rightarrow> ('e exn + 'priv) \<times> 's" where
  "from_private_bytes backend data s =
     (case ed448_supported backend s of
        (supported, s1) \<Rightarrow>
          if \<not> supported then
            (Inl (UnsupportedAlgorithm
                    ''ed448 is not supported by this version of OpenSSL.''
                    UNSUPPORTED_PUBLIC_KEY_ALGORITHM), s1)
          else ed448_load_private_bytes backend data s1)"

subsection \<open>Serialization selectors\<close>

text \<open>
  Modelled from the spec: the selector types of \<^verbatim>\<open>_serialization\<close>, which this
  module imports and which is not among the sources. The spec's data model gives
  \<^verbatim>\<open>Encoding\<close> as Raw, PEM, DER, OpenSSH; \<^verbatim>\<open>PublicFormat\<close> as Raw,
  SubjectPublicKeyInfo, OpenSSH; \<^verbatim>\<open>PrivateFormat\<close> as Raw, PKCS8, OpenSSH; and
  \<^verbatim>\<open>KeySerializationEncryption\<close> as a configuration with a \<^verbatim>\<open>NoEncryption\<close>
  variant. The configurations that do ask for encryption are not enumerated there and
  are a type parameter \<open>'c\<close>.
\<close>

datatype Encoding = Raw | PEM | DER | OpenSSH

datatype PublicFormat = Raw | SubjectPublicKeyInfo | OpenSSH

datatype PrivateFormat = Raw | PKCS8 | OpenSSH

datatype 'c KeySerializationEncryption = NoEncryption | Encrypted 'c

subsection \<open>The abstract methods and the raw conveniences\<close>

text \<open>
  \<^verbatim>\<open>class Ed448PublicKey(metaclass=abc.ABCMeta)\<close>: three abstract methods, which a
  concrete key class supplies. A class is the record of its methods, each taking
  \<^verbatim>\<open>self\<close> (a key of type \<open>'k\<close>) first. \<^verbatim>\<open>__eq__\<close> is \<open>dunder_eq\<close>; the
  other operand is taken to be a key of the same class.
\<close>

record ('s, 'e, 'k) Ed448PublicKey =
  public_bytes :: "'k \<Rightarrow> Encoding \<Rightarrow> PublicFormat \<Rightarrow> 's \<Rightarrow> ('e exn + bytes) \<times> 's"
  verify :: "'k \<Rightarrow> bytes \<Rightarrow> bytes \<Rightarrow> 's \<Rightarrow> ('e exn + unit) \<times> 's"
  dunder_eq :: "'k \<Rightarrow> 'k \<Rightarrow> 's \<Rightarrow> bool \<times> 's"

text \<open>\<^verbatim>\<open>Ed448PublicKey.public_bytes_raw(self)\<close>\<close>

definition public_bytes_raw ::
  "('s, 'e, 'k) Ed448PublicKey \<Rightarrow> 'k \<Rightarrow> 's \<Rightarrow> ('e exn + bytes) \<times> 's" where
  "public_bytes_raw cls self s = public_bytes cls self Encoding.Raw PublicFormat.Raw s"

text \<open>
  \<^verbatim>\<open>class Ed448PrivateKey(metaclass=abc.ABCMeta)\<close>: three abstract methods;
  \<^verbatim>\<open>public_key\<close> returns a public key object of type \<open>'p\<close>.
\<close>

record ('s, 'e, 'k, 'p, 'c) Ed448PrivateKey =
  public_key :: "'k \<Rightarrow> 's \<Rightarrow> ('e exn + 'p) \<times> 's"
  sign :: "'k \<Rightarrow> bytes \<Rightarrow> 's \<Rightarrow> ('e exn + bytes) \<times> 's"
  private_bytes ::
    "'k \<Rightarrow> Encoding \<Rightarrow> PrivateFormat \<Rightarrow> 'c KeySerializationEncryption \<Rightarrow> 's \<Rightarrow> ('e exn + bytes) \<times> 's"

text \<open>\<^verbatim>\<open>Ed448PrivateKey.private_bytes_raw(self)\<close>\<close>

definition private_bytes_raw ::
  "('s, 'e, 'k, 'p, 'c) Ed448PrivateKey \<Rightarrow> 'k \<Rightarrow> 's \<Rightarrow> ('e exn + bytes) \<times> 's" where
  "private_bytes_raw cls self s =
     private_bytes cls self Encoding.Raw PrivateFormat.Raw NoEncryption s"

subsection \<open>Observing the calls made on the backend\<close>

text \<open>
  The class methods are polymorphic in the backend they are given. Run against
  \<open>recording b\<close> they behave as against \<open>b\<close>, and every call they make on the
  backend object, with its argument, is appended to a log kept beside the state.
\<close>

datatype backend_call =
    Call_ed448_supported
  | Call_ed448_generate_key
  | Call_ed448_load_public_bytes bytes
  | Call_ed448_load_private_bytes bytes

definition logged ::
  "backend_call \<Rightarrow> ('s \<Rightarrow> 'a \<times> 's) \<Rightarrow> 's \<times> backend_call list \<Rightarrow> 'a \<times> 's \<times> backend_call list" where
  "logged c f = (\<lambda>(s, log). case f s of (r, s') \<Rightarrow> (r, s', log @ [c]))"

definition recording ::
  "('s, 'e, 'pub, 'priv) backend \<Rightarrow> ('s \<times> backend_call list, 'e, 'pub, 'priv) backend" where
  "recording b =
     \<lparr> ed448_supported = logged Call_ed448_supported (ed448_supported b),
       ed448_generate_key = logged Call_ed448_generate_key (ed448_generate_key b),
       ed448_load_public_bytes =
         (\<lambda>data. logged (Call_ed448_load_public_bytes data) (ed448_load_public_bytes b data)),
       ed448_load_private_bytes =
         (\<lambda>data. logged (Call_ed448_load_private_bytes data) (ed448_load_private_bytes b data)) \<rparr>"

text \<open>
  A backend for exercising the class methods: the state counts the calls it has
  served, the capability answer is the flag given, and the loaders accept whatever
  they are handed and return it as the key.
\<close>

definition counting_backend :: "bool \<Rightarrow> (nat, unit, bytes, bytes) backend" where
  "counting_backend flag =
     \<lparr> ed448_supported = (\<lambda>n. (flag, Suc n)),
       ed448_generate_key = (\<lambda>n. (Inr [], Suc n)),
       ed448_load_public_bytes = (\<lambda>data n. (Inr data, Suc n)),
       ed448_load_private_bytes = (\<lambda>data n. (Inr data, Suc n)) \<rparr>"

section \<open>The provider as the spec describes it\<close>

text \<open>
  The backend object and the concrete key classes live in the backend package, which
  is not among the sources. For the properties that are decided there, this section
  models them from the spec (its sections 3, 4, 6 and 7).
\<close>

text \<open>
  Modelled from the spec: the errors a provider raises, after the error taxonomy of
  section 7 (\<^verbatim>\<open>UnsupportedAlgorithm\<close> is raised by the interface itself).
\<close>

datatype provider_error = InvalidKey | UnsupportedFormat | InvalidArgument | InvalidSignature

text \<open>
  Modelled from the spec: the key handles of section 3. A public key holds the
  encoded point, a private key the seed; both are immutable and both are 57 bytes
  long in a valid key.
\<close>

datatype PublicKeyHandle = PublicKeyHandle (point: bytes)

datatype PrivateKeyHandle = PrivateKeyHandle (seed: bytes)

definition ed448_key_size :: nat where
  "ed448_key_size = 57"

text \<open>
  Modelled from the spec: what the spec leaves to the provider and does not describe
  further. These are parameters: whether Ed448 is supported, the secure random source,
  which 57-byte strings are well-formed points and acceptable seeds, the derivation of
  the point from the seed, signing and verification, and the byte layout of the
  structured exports.
\<close>

record ('s, 'c) ed448_provider =
  supports_ed448 :: bool
  random_seed :: "'s \<Rightarrow> bytes \<times> 's"
  well_formed_point :: "bytes \<Rightarrow> bool"
  acceptable_seed :: "bytes \<Rightarrow> bool"
  derive_point :: "bytes \<Rightarrow> bytes"
  signature_of :: "bytes \<Rightarrow> bytes \<Rightarrow> bytes"
  signature_valid :: "bytes \<Rightarrow> bytes \<Rightarrow> bytes \<Rightarrow> bool"
  structured_public :: "Encoding \<Rightarrow> PublicFormat \<Rightarrow> bytes \<Rightarrow> provider_error + bytes"
  structured_private ::
    "Encoding \<Rightarrow> PrivateFormat \<Rightarrow> 'c KeySerializationEncryption \<Rightarrow> bytes \<Rightarrow> provider_error + bytes"

text \<open>
  Modelled from the spec: the backend object, after section 6 and the constructor
  contracts of section 4. \<^verbatim>\<open>ed448_supported\<close> is a pure query.
  \<^verbatim>\<open>ed448_generate_key\<close> draws one seed from the random source.
  \<^verbatim>\<open>ed448_load_public_bytes\<close> fails with \<^verbatim>\<open>InvalidKey\<close> unless the data is a
  well-formed point of the expected length; \<^verbatim>\<open>ed448_load_private_bytes\<close> fails
  with \<^verbatim>\<open>InvalidKey\<close> when the data has the wrong length or is otherwise rejected.
\<close>

definition provider_backend ::
  "('s, 'c) ed448_provider \<Rightarrow> ('s, provider_error, PublicKeyHandle, PrivateKeyHandle) backend" where
  "provider_backend P =
     \<lparr> ed448_supported = (\<lambda>s. (supports_ed448 P, s)),
       ed448_generate_key =
         (\<lambda>s. case random_seed P s of (fresh, s') \<Rightarrow> (Inr (PrivateKeyHandle fresh), s')),
       ed448_load_public_bytes = (\<lambda>data s.
         (if length data = ed448_key_size \<and> well_formed_point P data
          then Inr (PublicKeyHandle data) else Inl (Other InvalidKey), s)),
       ed448_load_private_bytes = (\<lambda>data s.
         (if length data = ed448_key_size \<and> acceptable_seed P data
          then Inr (PrivateKeyHandle data) else Inl (Other InvalidKey), s)) \<rparr>"

text \<open>
  Modelled from the spec: the concrete public key class, after section 4.1. Raw
  encoding requires Raw format and yields the 57 raw bytes; any other encoding is a
  structured export, whose matrix and layout are the provider's. Verification fails
  with \<^verbatim>\<open>InvalidSignature\<close> whatever the cause. Two keys are equal iff their raw
  bytes are identical. No method changes the state.
\<close>

definition provider_public_key ::
  "('s, 'c) ed448_provider \<Rightarrow> ('s, provider_error, PublicKeyHandle) Ed448PublicKey" where
  "provider_public_key P =
     \<lparr> public_bytes = (\<lambda>self encoding format s.
         (if encoding = Encoding.Raw then
            (if format = PublicFormat.Raw then Inr (point self)
             else Inl (Other UnsupportedFormat))
          else (case structured_public P encoding format (point self) of
                  Inl e \<Rightarrow> Inl (Other e) | Inr out \<Rightarrow> Inr out), s)),
       verify = (\<lambda>self signature data s.
         (if signature_valid P (point self) signature data then Inr ()
          else Inl (Other InvalidSignature), s)),
       dunder_eq = (\<lambda>self other s. (point self = point other, s)) \<rparr>"

text \<open>
  Modelled from the spec: the concrete private key class, after section 4.2.
  \<^verbatim>\<open>public_key\<close> is a pure function of the private material. Raw encoding
  requires Raw format (else \<^verbatim>\<open>UnsupportedFormat\<close>) and no encryption (else
  \<^verbatim>\<open>InvalidArgument\<close>) and yields the 57 raw bytes. No method changes the state.
\<close>

definition provider_private_key ::
  "('s, 'c) ed448_provider \<Rightarrow>
     ('s, provider_error, PrivateKeyHandle, PublicKeyHandle, 'c) Ed448PrivateKey" where
  "provider_private_key P =
     \<lparr> public_key = (\<lambda>self s. (Inr (PublicKeyHandle (derive_point P (seed self))), s)),
       sign = (\<lambda>self data s. (Inr (signature_of P (seed self) data), s)),
       private_bytes = (\<lambda>self encoding format encryption s.
         (if encoding = Encoding.Raw then
            (if format \<noteq> PrivateFormat.Raw then Inl (Other UnsupportedFormat)
             else if encryption \<noteq> NoEncryption then Inl (Other InvalidArgument)
             else Inr (seed self))
          else (case structured_private P encoding format encryption (seed self) of
                  Inl e \<Rightarrow> Inl (Other e) | Inr out \<Rightarrow> Inr out), s)) \<rparr>"

text \<open>
  Modelled from the spec: a valid key, after the invariants of section 3 and the
  loaders above: its material has the expected length and is what the provider accepts.
\<close>

definition valid_public_key :: "('s, 'c) ed448_provider \<Rightarrow> PublicKeyHandle \<Rightarrow> bool" where
  "valid_public_key P p = (length (point p) = ed448_key_size \<and> well_formed_point P (point p))"

definition valid_private_key :: "('s, 'c) ed448_provider \<Rightarrow> PrivateKeyHandle \<Rightarrow> bool" where
  "valid_private_key P k = (length (seed k) = ed448_key_size \<and> acceptable_seed P (seed k))"

text \<open>
  A provider for evaluation: it supports Ed448, draws as seed 57 copies of a counter,
  accepts every 57-byte string, derives the point by adding one to every byte of the
  seed, signs by prefixing the seed, and offers no structured export.
\<close>

definition sample_provider :: "(nat, unit) ed448_provider" where
  "sample_provider =
     \<lparr> supports_ed448 = True,
       random_seed = (\<lambda>n. (replicate 57 (of_nat n), Suc n)),
       well_formed_point = (\<lambda>data. True),
       acceptable_seed = (\<lambda>data. True),
       derive_point = map (\<lambda>byte. byte + 1),
       signature_of = (\<lambda>seed data. seed @ data),
       signature_valid = (\<lambda>point signature data. signature = map (\<lambda>byte. byte - 1) point @ data),
       structured_public = (\<lambda>encoding format point. Inl UnsupportedFormat),
       structured_private = (\<lambda>encoding format encryption seed. Inl UnsupportedFormat) \<rparr>"

subsection \<open>Round trips through the raw bytes\<close>

text \<open>
  Sequencing of calls that may raise: the second runs on the result and the state of
  the first, unless the first raised.
\<close>

definition and_then ::
  "('s \<Rightarrow> ('x + 'a) \<times> 's) \<Rightarrow> ('a \<Rightarrow> 's \<Rightarrow> ('x + 'b) \<times> 's) \<Rightarrow> 's \<Rightarrow> ('x + 'b) \<times> 's" where
  "and_then m f s = (case m s of (Inl e, s1) \<Rightarrow> (Inl e, s1) | (Inr a, s1) \<Rightarrow> f a s1)"

text \<open>
  \<^verbatim>\<open>Ed448PublicKey.from_public_bytes(p.public_bytes_raw()) == p\<close>
\<close>

definition public_round_trip ::
  "('s, 'e, 'pub, 'priv) backend \<Rightarrow> ('s, 'e, 'pub) Ed448PublicKey \<Rightarrow> 'pub \<Rightarrow> 's \<Rightarrow>
     ('e exn + bool) \<times> 's" where
  "public_round_trip backend pub_cls p =
     and_then (public_bytes_raw pub_cls p) (\<lambda>raw.
     and_then (from_public_bytes backend raw) (\<lambda>p' s.
       case dunder_eq pub_cls p' p s of (equal, s') \<Rightarrow> (Inr equal, s')))"

text \<open>
  \<^verbatim>\<open>k2 = Ed448PrivateKey.from_private_bytes(k.private_bytes_raw())\<close>, then the pair
  \<^verbatim>\<open>(k2.public_key() == k.public_key(), k2.private_bytes_raw() == k.private_bytes_raw())\<close>
\<close>

definition private_round_trip ::
  "('s, 'e, 'pub, 'priv) backend \<Rightarrow> ('s, 'e, 'priv, 'pub, 'c) Ed448PrivateKey \<Rightarrow>
     ('s, 'e, 'pub) Ed448PublicKey \<Rightarrow> 'priv \<Rightarrow> 's \<Rightarrow> ('e exn + bool \<times> bool) \<times> 's" where
  "private_round_trip backend priv_cls pub_cls k =
     and_then (private_bytes_raw priv_cls k) (\<lambda>raw.
     and_then (from_private_bytes backend raw) (\<lambda>k2.
     and_then (public_key priv_cls k2) (\<lambda>pub2.
     and_then (public_key priv_cls k) (\<lambda>pub1.
     and_then (\<lambda>s. case dunder_eq pub_cls pub2 pub1 s of (equal, s') \<Rightarrow> (Inr equal, s'))
       (\<lambda>same_public.
     and_then (private_bytes_raw priv_cls k2) (\<lambda>raw2.
     and_then (private_bytes_raw priv_cls k) (\<lambda>raw1 s.
       (Inr (same_public, raw2 = raw1), s))))))))"

section \<open>Properties of the class methods\<close>

lemma recording_supported:
  "ed448_supported (recording b) (s, log) =
     (fst (ed448_supported b s), snd (ed448_supported b s), log @ [Call_ed448_supported])"
  by (simp add: recording_def logged_def split: prod.splits)

lemma recording_load_public:
  "ed448_load_public_bytes (recording b) data (s, log) =
     (fst (ed448_load_public_bytes b data s), snd (ed448_load_public_bytes b data s),
      log @ [Call_ed448_load_public_bytes data])"
  by (simp add: recording_def logged_def split: prod.splits)

lemma recording_load_private:
  "ed448_load_private_bytes (recording b) data (s, log) =
     (fst (ed448_load_private_bytes b data s), snd (ed448_load_private_bytes b data s),
      log @ [Call_ed448_load_private_bytes data])"
  by (simp add: recording_def logged_def split: prod.splits)

lemma recording_generate:
  "ed448_generate_key (recording b) (s, log) =
     (fst (ed448_generate_key b s), snd (ed448_generate_key b s),
      log @ [Call_ed448_generate_key])"
  by (simp add: recording_def logged_def split: prod.splits)

text \<open>
  The log is an observer only: against \<open>recording b\<close> each class method returns
  what it returns against \<open>b\<close> and leaves the state it leaves against \<open>b\<close>. With
  a backend that supports Ed448 the calls are the capability check and then the one
  construction call, carrying the caller's data unchanged.
\<close>

lemma from_public_bytes_recording:
  "from_public_bytes (recording b) data (s, log) =
     (fst (from_public_bytes b data s), snd (from_public_bytes b data s),
      log @ (if fst (ed448_supported b s)
             then [Call_ed448_supported, Call_ed448_load_public_bytes data]
             else [Call_ed448_supported]))"
  by (simp add: from_public_bytes_def recording_supported recording_load_public
           split: prod.splits)

lemma from_private_bytes_recording:
  "from_private_bytes (recording b) data (s, log) =
     (fst (from_private_bytes b data s), snd (from_private_bytes b data s),
      log @ (if fst (ed448_supported b s)
             then [Call_ed448_supported, Call_ed448_load_private_bytes data]
             else [Call_ed448_supported]))"
  by (simp add: from_private_bytes_def recording_supported recording_load_private
           split: prod.splits)

lemma generate_recording:
  "generate (recording b) (s, log) =
     (fst (generate b s), snd (generate b s),
      log @ (if fst (ed448_supported b s)
             then [Call_ed448_supported, Call_ed448_generate_key]
             else [Call_ed448_supported]))"
  by (simp add: generate_def recording_supported recording_generate split: prod.splits)

text \<open>
  Claim C1. When the backend answers \<^verbatim>\<open>ed448_supported()\<close> with False, each of
  \<^verbatim>\<open>generate\<close>, \<^verbatim>\<open>from_public_bytes\<close> and \<^verbatim>\<open>from_private_bytes\<close>
  raises \<^verbatim>\<open>UnsupportedAlgorithm\<close>, and the only call it has made on the backend is
  that one capability check: the log grows by exactly \<open>Call_ed448_supported\<close>, and
  the state is the one the capability check left. (The \<^verbatim>\<open>import\<close> statement in
  each method binds the backend object; it is not a call on it.)
\<close>

theorem unsupported_constructors_raise_after_one_check:
  assumes "fst (ed448_supported b s) = False"
  shows "generate (recording b) (s, log) =
           (Inl (UnsupportedAlgorithm ''ed448 is not supported by this version of OpenSSL.''
                   UNSUPPORTED_PUBLIC_KEY_ALGORITHM),
            snd (ed448_supported b s), log @ [Call_ed448_supported])
       \<and> from_public_bytes (recording b) data (s, log) =
           (Inl (UnsupportedAlgorithm ''ed448 is not supported by this version of OpenSSL.''
                   UNSUPPORTED_PUBLIC_KEY_ALGORITHM),
            snd (ed448_supported b s), log @ [Call_ed448_supported])
       \<and> from_private_bytes (recording b) data' (s, log) =
           (Inl (UnsupportedAlgorithm ''ed448 is not supported by this version of OpenSSL.''
                   UNSUPPORTED_PUBLIC_KEY_ALGORITHM),
            snd (ed448_supported b s), log @ [Call_ed448_supported])"
  using assms
  by (simp add: generate_def from_public_bytes_def from_private_bytes_def recording_supported)

theorem unsupported_constructors_witness:
  "fst (ed448_supported (counting_backend False) 0) = False
   \<and> generate (recording (counting_backend False)) (0, []) =
       (Inl (UnsupportedAlgorithm ''ed448 is not supported by this version of OpenSSL.''
               UNSUPPORTED_PUBLIC_KEY_ALGORITHM), Suc 0, [Call_ed448_supported])
   \<and> from_public_bytes (recording (counting_backend False)) [1, 2, 3] (0, []) =
       (Inl (UnsupportedAlgorithm ''ed448 is not supported by this version of OpenSSL.''
               UNSUPPORTED_PUBLIC_KEY_ALGORITHM), Suc 0, [Call_ed448_supported])
   \<and> from_private_bytes (recording (counting_backend False)) [4, 5] (0, []) =
       (Inl (UnsupportedAlgorithm ''ed448 is not supported by this version of OpenSSL.''
               UNSUPPORTED_PUBLIC_KEY_ALGORITHM), Suc 0, [Call_ed448_supported])"
  using unsupported_constructors_raise_after_one_check
          [where b = "counting_backend False" and s = 0 and log = "[]"
             and data = "[1, 2, 3]" and data' = "[4, 5]"]
  by (simp add: counting_backend_def)

text \<open>
  Claim C10. With \<^verbatim>\<open>ed448_supported()\<close> False, what \<^verbatim>\<open>from_public_bytes\<close> and
  \<^verbatim>\<open>from_private_bytes\<close> do is independent of their input: for any two byte
  strings the result, the state left behind and the calls logged are the same. The
  result is the one \<^verbatim>\<open>UnsupportedAlgorithm\<close> with the module's message and the reason
  \<^verbatim>\<open>UNSUPPORTED_PUBLIC_KEY_ALGORITHM\<close>, for both methods, and no loader call carrying
  input bytes is among the calls logged.
\<close>

theorem unsupported_failure_independent_of_input:
  assumes "fst (ed448_supported b s) = False"
  shows "from_public_bytes (recording b) data1 (s, log) =
           from_public_bytes (recording b) data2 (s, log)
       \<and> from_private_bytes (recording b) data1 (s, log) =
           from_private_bytes (recording b) data2 (s, log)
       \<and> fst (from_public_bytes (recording b) data1 (s, log)) =
           Inl (UnsupportedAlgorithm ''ed448 is not supported by this version of OpenSSL.''
                  UNSUPPORTED_PUBLIC_KEY_ALGORITHM)
       \<and> fst (from_private_bytes (recording b) data2 (s, log)) =
           Inl (UnsupportedAlgorithm ''ed448 is not supported by this version of OpenSSL.''
                  UNSUPPORTED_PUBLIC_KEY_ALGORITHM)
       \<and> snd (snd (from_public_bytes (recording b) data1 (s, log))) =
           log @ [Call_ed448_supported]
       \<and> snd (snd (from_private_bytes (recording b) data2 (s, log))) =
           log @ [Call_ed448_supported]"
  using assms
  by (simp add: from_public_bytes_def from_private_bytes_def recording_supported)

theorem unsupported_failure_independent_of_input_witness:
  "fst (ed448_supported (counting_backend False) 7) = False
   \<and> from_public_bytes (recording (counting_backend False)) [] (7, []) =
       from_public_bytes (recording (counting_backend False)) [255, 0, 17] (7, [])
   \<and> from_private_bytes (recording (counting_backend False)) [] (7, []) =
       from_private_bytes (recording (counting_backend False)) [255, 0, 17] (7, [])
   \<and> fst (from_public_bytes (recording (counting_backend False)) [] (7, [])) =
       Inl (UnsupportedAlgorithm ''ed448 is not supported by this version of OpenSSL.''
              UNSUPPORTED_PUBLIC_KEY_ALGORITHM)
   \<and> fst (from_private_bytes (recording (counting_backend False)) [255, 0, 17] (7, [])) =
       Inl (UnsupportedAlgorithm ''ed448 is not supported by this version of OpenSSL.''
              UNSUPPORTED_PUBLIC_KEY_ALGORITHM)
   \<and> snd (snd (from_public_bytes (recording (counting_backend False)) [] (7, []))) =
       [Call_ed448_supported]
   \<and> snd (snd (from_private_bytes (recording (counting_backend False)) [255, 0, 17] (7, []))) =
       [Call_ed448_supported]"
proof -
  have unsupported: "fst (ed448_supported (counting_backend False) 7) = False"
    by (simp add: counting_backend_def)
  from unsupported_failure_independent_of_input
         [OF unsupported, where log = "[]" and ?data1.0 = "[]" and ?data2.0 = "[255, 0, 17]"]
  show ?thesis using unsupported by (elim conjE) simp
qed

section \<open>Properties of the raw conveniences\<close>

text \<open>
  The docstrings of the two conveniences: each is the core serialization method at the
  Raw selectors, with the same result and the same state afterwards, whatever the
  concrete class does there.
\<close>

lemma public_bytes_raw_is_public_bytes_at_Raw:
  "public_bytes_raw cls self s = public_bytes cls self Encoding.Raw PublicFormat.Raw s"
  by (simp add: public_bytes_raw_def)

lemma private_bytes_raw_is_private_bytes_at_Raw:
  "private_bytes_raw cls self s =
     private_bytes cls self Encoding.Raw PrivateFormat.Raw NoEncryption s"
  by (simp add: private_bytes_raw_def)

section \<open>Properties of the provider as the spec describes it\<close>

lemma provider_public_bytes_raw:
  "public_bytes_raw (provider_public_key P) p s = (Inr (point p), s)"
  by (simp add: public_bytes_raw_def provider_public_key_def)

lemma provider_private_bytes_raw:
  "private_bytes_raw (provider_private_key P) k s = (Inr (seed k), s)"
  by (simp add: private_bytes_raw_def provider_private_key_def)

lemma provider_from_public_bytes:
  "supports_ed448 P \<Longrightarrow>
   from_public_bytes (provider_backend P) data s =
     (if length data = ed448_key_size \<and> well_formed_point P data
      then Inr (PublicKeyHandle data) else Inl (Other InvalidKey), s)"
  by (simp add: from_public_bytes_def provider_backend_def)

lemma provider_from_private_bytes:
  "supports_ed448 P \<Longrightarrow>
   from_private_bytes (provider_backend P) data s =
     (if length data = ed448_key_size \<and> acceptable_seed P data
      then Inr (PrivateKeyHandle data) else Inl (Other InvalidKey), s)"
  by (simp add: from_private_bytes_def provider_backend_def)

text \<open>The valid keys are exactly the keys the constructors from bytes return.\<close>

lemma valid_public_key_iff_loaded:
  assumes "supports_ed448 P"
  shows "valid_public_key P p \<longleftrightarrow>
           (\<exists>data. fst (from_public_bytes (provider_backend P) data s) = Inr p)"
proof
  assume "valid_public_key P p"
  then have "fst (from_public_bytes (provider_backend P) (point p) s) = Inr p"
    using assms by (simp add: provider_from_public_bytes valid_public_key_def)
  then show "\<exists>data. fst (from_public_bytes (provider_backend P) data s) = Inr p" ..
next
  assume "\<exists>data. fst (from_public_bytes (provider_backend P) data s) = Inr p"
  then obtain data where "fst (from_public_bytes (provider_backend P) data s) = Inr p" ..
  then show "valid_public_key P p"
    using assms
    by (auto simp: provider_from_public_bytes valid_public_key_def split: if_splits)
qed

lemma valid_private_key_iff_loaded:
  assumes "supports_ed448 P"
  shows "valid_private_key P k \<longleftrightarrow>
           (\<exists>data. fst (from_private_bytes (provider_backend P) data s) = Inr k)"
proof
  assume "valid_private_key P k"
  then have "fst (from_private_bytes (provider_backend P) (seed k) s) = Inr k"
    using assms by (simp add: provider_from_private_bytes valid_private_key_def)
  then show "\<exists>data. fst (from_private_bytes (provider_backend P) data s) = Inr k" ..
next
  assume "\<exists>data. fst (from_private_bytes (provider_backend P) data s) = Inr k"
  then obtain data where "fst (from_private_bytes (provider_backend P) data s) = Inr k" ..
  then show "valid_private_key P k"
    using assms
    by (auto simp: provider_from_private_bytes valid_private_key_def split: if_splits)
qed

text \<open>
  Claim C4. With a provider that supports Ed448, for every valid public key \<open>p\<close>:
  \<^verbatim>\<open>p.public_bytes_raw()\<close> returns the key's bytes,
  \<^verbatim>\<open>from_public_bytes\<close> of those bytes returns a key, and that key equals \<open>p\<close>
  under \<^verbatim>\<open>__eq__\<close>; the state is left as it was.
\<close>

theorem public_key_round_trip:
  assumes "supports_ed448 P" and "valid_public_key P p"
  shows "public_bytes_raw (provider_public_key P) p s = (Inr (point p), s)
       \<and> from_public_bytes (provider_backend P) (point p) s = (Inr p, s)
       \<and> public_round_trip (provider_backend P) (provider_public_key P) p s = (Inr True, s)"
proof -
  have raw: "public_bytes_raw (provider_public_key P) p s = (Inr (point p), s)"
    by (rule provider_public_bytes_raw)
  have load: "from_public_bytes (provider_backend P) (point p) s = (Inr p, s)"
    using assms by (simp add: provider_from_public_bytes valid_public_key_def)
  have "dunder_eq (provider_public_key P) p p s = (True, s)"
    by (simp add: provider_public_key_def)
  with raw load
  have "public_round_trip (provider_backend P) (provider_public_key P) p s = (Inr True, s)"
    by (simp add: public_round_trip_def and_then_def)
  with raw load show ?thesis by simp
qed

theorem public_key_round_trip_witness:
  "supports_ed448 sample_provider
   \<and> valid_public_key sample_provider (PublicKeyHandle (replicate 57 3))
   \<and> public_bytes_raw (provider_public_key sample_provider)
        (PublicKeyHandle (replicate 57 3)) 0 = (Inr (replicate 57 3), 0)
   \<and> from_public_bytes (provider_backend sample_provider) (replicate 57 3) 0 =
        (Inr (PublicKeyHandle (replicate 57 3)), 0)
   \<and> public_round_trip (provider_backend sample_provider) (provider_public_key sample_provider)
        (PublicKeyHandle (replicate 57 3)) 0 = (Inr True, 0)"
proof -
  have supported: "supports_ed448 sample_provider"
    by (simp add: sample_provider_def)
  have valid: "valid_public_key sample_provider (PublicKeyHandle (replicate 57 3))"
    by (simp add: valid_public_key_def ed448_key_size_def sample_provider_def)
  from public_key_round_trip [OF supported valid, of 0]
  show ?thesis using supported valid by simp
qed

text \<open>
  Claim C5. With a provider that supports Ed448, for every valid private key \<open>k\<close>:
  \<^verbatim>\<open>k.private_bytes_raw()\<close> returns the key's bytes,
  \<^verbatim>\<open>from_private_bytes\<close> of those bytes returns a key \<open>k2\<close>,
  \<^verbatim>\<open>k2.public_key()\<close> equals \<^verbatim>\<open>k.public_key()\<close> under \<^verbatim>\<open>__eq__\<close>, and
  \<^verbatim>\<open>k2.private_bytes_raw()\<close> equals \<^verbatim>\<open>k.private_bytes_raw()\<close>; the state is
  left as it was.
\<close>

theorem private_key_round_trip:
  assumes "supports_ed448 P" and "valid_private_key P k"
  shows "private_bytes_raw (provider_private_key P) k s = (Inr (seed k), s)
       \<and> from_private_bytes (provider_backend P) (seed k) s = (Inr k, s)
       \<and> private_round_trip (provider_backend P) (provider_private_key P)
           (provider_public_key P) k s = (Inr (True, True), s)"
proof -
  have raw: "private_bytes_raw (provider_private_key P) k s = (Inr (seed k), s)"
    by (rule provider_private_bytes_raw)
  have load: "from_private_bytes (provider_backend P) (seed k) s = (Inr k, s)"
    using assms by (simp add: provider_from_private_bytes valid_private_key_def)
  have derive: "public_key (provider_private_key P) k s =
                  (Inr (PublicKeyHandle (derive_point P (seed k))), s)"
    by (simp add: provider_private_key_def)
  have equal: "dunder_eq (provider_public_key P) q q s = (True, s)" for q
    by (simp add: provider_public_key_def)
  from raw load derive equal
  have "private_round_trip (provider_backend P) (provider_private_key P)
          (provider_public_key P) k s = (Inr (True, True), s)"
    by (simp add: private_round_trip_def and_then_def)
  with raw load show ?thesis by simp
qed

theorem private_key_round_trip_witness:
  "supports_ed448 sample_provider
   \<and> valid_private_key sample_provider (PrivateKeyHandle (replicate 57 9))
   \<and> private_bytes_raw (provider_private_key sample_provider)
        (PrivateKeyHandle (replicate 57 9)) 0 = (Inr (replicate 57 9), 0)
   \<and> from_private_bytes (provider_backend sample_provider) (replicate 57 9) 0 =
        (Inr (PrivateKeyHandle (replicate 57 9)), 0)
   \<and> private_round_trip (provider_backend sample_provider) (provider_private_key sample_provider)
        (provider_public_key sample_provider) (PrivateKeyHandle (replicate 57 9)) 0 =
        (Inr (True, True), 0)"
proof -
  have supported: "supports_ed448 sample_provider"
    by (simp add: sample_provider_def)
  have valid: "valid_private_key sample_provider (PrivateKeyHandle (replicate 57 9))"
    by (simp add: valid_private_key_def ed448_key_size_def sample_provider_def)
  from private_key_round_trip [OF supported valid, of 0]
  show ?thesis using supported valid by simp
qed

end
